theory Spec2Isabelle
  imports Main
begin

section \<open>Python values\<close>

text \<open>
  The adapter \<^verbatim>\<open>SNIP20\<close> (\<^verbatim>\<open>contractlib/snip20lib.py\<close>) is dynamically typed: its
  arguments and the backend's responses are arbitrary Python objects. The model covers
  the objects that travel through JSON: \<^verbatim>\<open>None\<close>, booleans, unbounded integers, strings,
  lists, and dictionaries with string keys (an association list in insertion order, the
  keys of a dictionary being distinct). Floats and objects that \<^verbatim>\<open>json.dumps\<close> refuses
  are outside the model. A \<open>char\<close> stands for the code point of the same number, so
  the strings of the model are the Python strings over U+0000 to U+00FF.
\<close>

datatype pyval =
    PNone
  | PBool bool
  | PInt int
  | PStr string
  | PList "pyval list"
  | PDict "(string \<times> pyval) list"

text \<open>
  The exceptions that can leave a method of the adapter: a missing dictionary key, a
  subscript or an argument of the wrong type, text that \<^verbatim>\<open>json.loads\<close> rejects, and
  whatever a collaborator (\<^verbatim>\<open>secretlib\<close>, \<^verbatim>\<open>Contract\<close>) raises.
\<close>

datatype error =
    KeyError string
  | TypeError
  | JSONDecodeError
  | Raised string

subsection \<open>\<^verbatim>\<open>str\<close> and \<^verbatim>\<open>repr\<close>\<close>

text \<open>The digit of a number below sixteen, in lower case as Python writes it.\<close>

definition hexdigit :: "nat \<Rightarrow> char" where
  "hexdigit n = ''0123456789abcdef'' ! (n mod 16)"

text \<open>
  The decimal digits of a natural number, most significant first. (An interpreter may be
  configured to refuse the conversion of integers beyond a number of digits; that
  setting is not part of the adapter and is not modelled.)
\<close>

function str_nat :: "nat \<Rightarrow> string" where
  "str_nat n = (if n < 10 then [hexdigit n] else str_nat (n div 10) @ [hexdigit (n mod 10)])"
  by pat_completeness auto
termination
  by (relation "measure id") auto

declare str_nat.simps [simp del]

definition str_int :: "int \<Rightarrow> string" where
  "str_int i = (if i < 0 then CHR ''-'' # str_nat (nat (- i)) else str_nat (nat i))"

text \<open>\<^verbatim>\<open>sep.join(xs)\<close>\<close>

fun str_join :: "string \<Rightarrow> string list \<Rightarrow> string" where
  "str_join sep [] = []"
| "str_join sep [x] = x"
| "str_join sep (x # y # ys) = x @ sep @ str_join sep (y # ys)"

text \<open>
  \<^verbatim>\<open>repr\<close> of a string: double quotes are chosen when the string has a single quote and
  no double quote; the quote and the backslash are escaped, tab, line feed and carriage
  return are written \<^verbatim>\<open>\t \n \r\<close>, and a code point that is not printable as \<^verbatim>\<open>\xhh\<close>.
\<close>

definition printable :: "char \<Rightarrow> bool" where
  "printable c =
     (let n = (of_char c :: nat)
      in (0x20 \<le> n \<and> n < 0x7F) \<or> (0xA1 \<le> n \<and> n \<noteq> 0xAD))"

definition repr_char :: "char \<Rightarrow> char \<Rightarrow> string" where
  "repr_char quote c =
     (if c = quote \<or> c = CHR 0x5C then [CHR 0x5C, c]
      else if c = CHR 0x09 then [CHR 0x5C, CHR ''t'']
      else if c = CHR 0x0A then [CHR 0x5C, CHR ''n'']
      else if c = CHR 0x0D then [CHR 0x5C, CHR ''r'']
      else if printable c then [c]
      else [CHR 0x5C, CHR ''x'', hexdigit (of_char c div 16), hexdigit (of_char c mod 16)])"

definition repr_str :: "string \<Rightarrow> string" where
  "repr_str s =
     (let quote = (if CHR 0x27 \<in> set s \<and> CHR 0x22 \<notin> set s then CHR 0x22 else CHR 0x27)
      in quote # concat (map (repr_char quote) s) @ [quote])"

fun repr :: "pyval \<Rightarrow> string" where
  "repr PNone = ''None''"
| "repr (PBool b) = (if b then ''True'' else ''False'')"
| "repr (PInt i) = str_int i"
| "repr (PStr s) = repr_str s"
| "repr (PList xs) = ''['' @ str_join '', '' (map repr xs) @ '']''"
| "repr (PDict kvs) =
     ''{'' @ str_join '', '' (map (\<lambda>kv. repr_str (fst kv) @ '': '' @ repr (snd kv)) kvs) @ ''}''"

text \<open>\<^verbatim>\<open>str(x)\<close>: the string itself for a string, \<^verbatim>\<open>repr(x)\<close> for the rest.\<close>

definition str :: "pyval \<Rightarrow> string" where
  "str v = (case v of PStr s \<Rightarrow> s | _ \<Rightarrow> repr v)"

subsection \<open>\<^verbatim>\<open>json.dumps\<close>\<close>

text \<open>
  With its default arguments (\<^verbatim>\<open>ensure_ascii=True\<close>, separators \<^verbatim>\<open>", "\<close> and \<^verbatim>\<open>": "\<close>,
  keys in insertion order). In a string, the double quote, the backslash and the
  control characters with a short form are escaped by a backslash and a letter, every
  other code point outside the range from the space to the tilde as \<^verbatim>\<open>\u00hh\<close>.
\<close>

definition json_escape :: "char \<Rightarrow> string" where
  "json_escape c =
     (if c = CHR 0x22 then [CHR 0x5C, CHR 0x22]
      else if c = CHR 0x5C then [CHR 0x5C, CHR 0x5C]
      else if c = CHR 0x0A then [CHR 0x5C, CHR ''n'']
      else if c = CHR 0x0D then [CHR 0x5C, CHR ''r'']
      else if c = CHR 0x09 then [CHR 0x5C, CHR ''t'']
      else if c = CHR 0x08 then [CHR 0x5C, CHR ''b'']
      else if c = CHR 0x0C then [CHR 0x5C, CHR ''f'']
      else if 0x20 \<le> (of_char c :: nat) \<and> (of_char c :: nat) \<le> 0x7E then [c]
      else [CHR 0x5C, CHR ''u'', CHR ''0'', CHR ''0'',
            hexdigit (of_char c div 16), hexdigit (of_char c mod 16)])"

definition json_str :: "string \<Rightarrow> string" where
  "json_str s = CHR 0x22 # concat (map json_escape s) @ [CHR 0x22]"

fun json_dumps :: "pyval \<Rightarrow> string" where
  "json_dumps PNone = ''null''"
| "json_dumps (PBool b) = (if b then ''true'' else ''false'')"
| "json_dumps (PInt i) = str_int i"
| "json_dumps (PStr s) = json_str s"
| "json_dumps (PList xs) = ''['' @ str_join '', '' (map json_dumps xs) @ '']''"
| "json_dumps (PDict kvs) =
     ''{'' @ str_join '', '' (map (\<lambda>kv. json_str (fst kv) @ '': '' @ json_dumps (snd kv)) kvs) @ ''}''"

subsection \<open>Subscripts and \<^verbatim>\<open>json.loads\<close>\<close>

text \<open>
  \<^verbatim>\<open>obj[key]\<close> for a string key: the value stored under the key of a dictionary,
  \<^verbatim>\<open>KeyError\<close> when the dictionary has no such key, \<^verbatim>\<open>TypeError\<close> for every other
  object of the model (none of them can be subscripted by a string).
\<close>

fun getitem :: "pyval \<Rightarrow> string \<Rightarrow> error + pyval" where
  "getitem (PDict kvs) k = (case map_of kvs k of None \<Rightarrow> Inl (KeyError k) | Some v \<Rightarrow> Inr v)"
| "getitem _ k = Inl TypeError"

text \<open>Sequencing of two steps that may raise: the first exception ends the evaluation.\<close>

definition and_then :: "error + 'a \<Rightarrow> ('a \<Rightarrow> error + 'b) \<Rightarrow> error + 'b" where
  "and_then r f = (case r of Inl e \<Rightarrow> Inl e | Inr v \<Rightarrow> f v)"

text \<open>
  \<^verbatim>\<open>json.loads\<close> belongs to Python's library: the decoder of JSON text is a parameter
  \<open>parse\<close> of the model (it returns the decoded object or raises), and only the type
  check that precedes it is written out.
\<close>

definition json_loads :: "(string \<Rightarrow> error + pyval) \<Rightarrow> pyval \<Rightarrow> error + pyval" where
  "json_loads parse v = (case v of PStr s \<Rightarrow> parse s | _ \<Rightarrow> Inl TypeError)"

section \<open>The collaborators\<close>

text \<open>
  \<^verbatim>\<open>secretlib\<close> and the base class \<^verbatim>\<open>Contract\<close> are imported by the adapter and are not
  part of it. They are parameters of the model: each takes the positional arguments of
  the call and the state of the backend, and returns the response (or the exception it
  raises) and the new state of the backend. They receive values, never the instance, so
  they cannot assign its attributes. The base constructor is the one that stores the
  attributes \<^verbatim>\<open>address\<close>, \<^verbatim>\<open>admin\<close> and \<^verbatim>\<open>backend\<close>, which the methods read: it returns
  these three, and \<^verbatim>\<open>view_key\<close>, which the class \<^verbatim>\<open>SNIP20\<close> introduces, is not its to set.
  The decoder of \<^verbatim>\<open>json.loads\<close> is the fourth parameter.
\<close>

record 'w env =
  execute_contract :: "pyval list \<Rightarrow> 'w \<Rightarrow> (error + pyval) \<times> 'w"
  query_contract :: "pyval list \<Rightarrow> 'w \<Rightarrow> (error + pyval) \<times> 'w"
  Contract_init :: "pyval list \<Rightarrow> 'w \<Rightarrow> (error + pyval \<times> pyval \<times> pyval) \<times> 'w"
  json_parse :: "string \<Rightarrow> error + pyval"

text \<open>
  The world outside the instance: the state of the backend and the log of the calls
  made to the collaborators, oldest first, each with its positional arguments.
\<close>

datatype call =
    ContractInit "pyval list"
  | ExecuteContract "pyval list"
  | QueryContract "pyval list"

record 'w world =
  calls :: "call list"
  chain :: 'w

definition secretlib_execute_contract ::
  "'w env \<Rightarrow> pyval list \<Rightarrow> 'w world \<Rightarrow> (error + pyval) \<times> 'w world" where
  "secretlib_execute_contract E args w =
     (let (r, c) = execute_contract E args (chain w)
      in (r, \<lparr>calls = calls w @ [ExecuteContract args], chain = c\<rparr>))"

definition secretlib_query_contract ::
  "'w env \<Rightarrow> pyval list \<Rightarrow> 'w world \<Rightarrow> (error + pyval) \<times> 'w world" where
  "secretlib_query_contract E args w =
     (let (r, c) = query_contract E args (chain w)
      in (r, \<lparr>calls = calls w @ [QueryContract args], chain = c\<rparr>))"

definition super_init ::
  "'w env \<Rightarrow> pyval list \<Rightarrow> 'w world \<Rightarrow> (error + pyval \<times> pyval \<times> pyval) \<times> 'w world" where
  "super_init E args w =
     (let (r, c) = Contract_init E args (chain w)
      in (r, \<lparr>calls = calls w @ [ContractInit args], chain = c\<rparr>))"

section \<open>The class \<^verbatim>\<open>SNIP20\<close>\<close>

record snip20 =
  view_key :: pyval
  address :: pyval
  admin :: pyval
  backend :: pyval

text \<open>
  The parameters of the constructor. \<open>admin_arg\<close> and \<open>backend_arg\<close> are the
  parameters \<^verbatim>\<open>admin\<close> and \<^verbatim>\<open>backend\<close> (the names are taken by the attributes).
\<close>

record init_args =
  label :: pyval
  name :: pyval
  symbol :: pyval
  decimals :: pyval
  seed :: pyval
  public_total_supply :: pyval
  enable_deposit :: pyval
  enable_redeem :: pyval
  enable_mint :: pyval
  enable_burn :: pyval
  contract :: pyval
  admin_arg :: pyval
  uploader :: pyval
  gas :: pyval
  backend_arg :: pyval

text \<open>The default values of the signature; \<^verbatim>\<open>label\<close> has none.\<close>

definition default_args :: "pyval \<Rightarrow> init_args" where
  "default_args l =
     \<lparr>label = l, name = PStr ''token'', symbol = PStr ''TKN'', decimals = PInt 3,
      seed = PStr ''cGFzc3dvcmQ='', public_total_supply = PBool False,
      enable_deposit = PBool False, enable_redeem = PBool False, enable_mint = PBool False,
      enable_burn = PBool False, contract = PStr ''snip20.wasm.gz'', admin_arg = PStr ''a'',
      uploader = PStr ''a'', gas = PStr ''10000000'', backend_arg = PStr ''test''\<rparr>"

text \<open>The dictionary that \<^verbatim>\<open>__init__\<close> serialises, and \<^verbatim>\<open>initMsg\<close>, its JSON text.\<close>

definition init_payload :: "init_args \<Rightarrow> pyval" where
  "init_payload a =
     PDict [(''name'', name a), (''symbol'', symbol a), (''decimals'', decimals a),
            (''prng_seed'', seed a),
            (''config'', PDict [(''public_total_supply'', public_total_supply a),
                                (''enable_deposit'', enable_deposit a),
                                (''enable_redeem'', enable_redeem a),
                                (''enable_mint'', enable_mint a),
                                (''enable_burn'', enable_burn a)])]"

definition initMsg :: "init_args \<Rightarrow> string" where
  "initMsg a = json_dumps (init_payload a)"

text \<open>
  \<^verbatim>\<open>__init__\<close>: \<^verbatim>\<open>view_key\<close> is set to the empty string, then the base constructor runs
  with \<^verbatim>\<open>(contract, initMsg, label, admin, uploader, gas, backend)\<close>. An exception of the
  base constructor leaves no instance.
\<close>

definition SNIP20_init :: "'w env \<Rightarrow> init_args \<Rightarrow> 'w world \<Rightarrow> (error + snip20) \<times> 'w world" where
  "SNIP20_init E a w =
     (let (r, w') = super_init E [contract a, PStr (initMsg a), label a, admin_arg a,
                                  uploader a, gas a, backend_arg a] w
      in (case r of
            Inl e \<Rightarrow> (Inl e, w')
          | Inr (ad, adm, be) \<Rightarrow>
              (Inr \<lparr>view_key = PStr [], address = ad, admin = adm, backend = be\<rparr>, w')))"

text \<open>
  The methods. Each takes the instance and the world and returns the value returned or
  the exception raised, the instance afterwards and the world afterwards.
\<close>

definition set_minters ::
  "'w env \<Rightarrow> snip20 \<Rightarrow> pyval \<Rightarrow> 'w world \<Rightarrow> (error + pyval) \<times> snip20 \<times> 'w world" where
  "set_minters E self accounts w =
     (let msg = json_dumps (PDict [(''set_minters'', PDict [(''minters'', accounts)])]);
          (r, w') = secretlib_execute_contract E
                      [address self, PStr msg, admin self, backend self] w
      in (r, self, w'))"

definition deposit ::
  "'w env \<Rightarrow> snip20 \<Rightarrow> pyval \<Rightarrow> pyval \<Rightarrow> 'w world \<Rightarrow> (error + pyval) \<times> snip20 \<times> 'w world" where
  "deposit E self account amount w =
     (let msg = json_dumps (PDict [(''deposit'', PDict [])]);
          (r, w') = secretlib_execute_contract E
                      [address self, PStr msg, account, backend self, amount] w
      in (r, self, w'))"

definition mint ::
  "'w env \<Rightarrow> snip20 \<Rightarrow> pyval \<Rightarrow> pyval \<Rightarrow> 'w world \<Rightarrow> (error + pyval) \<times> snip20 \<times> 'w world" where
  "mint E self recipient amount w =
     (let msg = json_dumps (PDict [(''mint'', PDict [(''recipient'', recipient),
                                                     (''amount'', PStr (str amount))])]);
          (r, w') = secretlib_execute_contract E
                      [address self, PStr msg, admin self, backend self] w
      in (r, self, w'))"

definition send ::
  "'w env \<Rightarrow> snip20 \<Rightarrow> pyval \<Rightarrow> pyval \<Rightarrow> pyval \<Rightarrow> 'w world
     \<Rightarrow> (error + pyval) \<times> snip20 \<times> 'w world" where
  "send E self account recipient amount w =
     (let msg = json_dumps (PDict [(''send'', PDict [(''recipient'', recipient),
                                                     (''amount'', PStr (str amount))])]);
          (r, w') = secretlib_execute_contract E
                      [address self, PStr msg, account, backend self] w
      in (r, self, w'))"

definition set_view_key ::
  "'w env \<Rightarrow> snip20 \<Rightarrow> pyval \<Rightarrow> pyval \<Rightarrow> 'w world \<Rightarrow> (error + pyval) \<times> snip20 \<times> 'w world" where
  "set_view_key E self account entropy w =
     (let msg = json_dumps (PDict [(''create_viewing_key'', PDict [(''entropy'', entropy)])]);
          (r, w') = secretlib_execute_contract E
                      [address self, PStr msg, account, backend self] w
      in (and_then (and_then (and_then (and_then r
            (\<lambda>resp. getitem resp ''output_data_as_string''))
            (json_loads (json_parse E)))
            (\<lambda>doc. getitem doc ''create_viewing_key''))
            (\<lambda>d. getitem d ''key''),
          self, w'))"

definition get_balance ::
  "'w env \<Rightarrow> snip20 \<Rightarrow> pyval \<Rightarrow> pyval \<Rightarrow> 'w world \<Rightarrow> (error + pyval) \<times> snip20 \<times> 'w world" where
  "get_balance E self addr password w =
     (let msg = json_dumps (PDict [(''balance'', PDict [(''key'', password),
                                                        (''address'', addr)])]);
          (r, w') = secretlib_query_contract E [address self, PStr msg] w
      in (and_then (and_then r
            (\<lambda>resp. getitem resp ''balance''))
            (\<lambda>b. getitem b ''amount''),
          self, w'))"

text \<open>
  A caller of the adapter: one call of one of the six methods, and a sequence of such
  calls on the same instance. The caller may catch an exception and go on, so the
  sequence continues after a call that raised.
\<close>

datatype method_call =
    Set_minters pyval
  | Deposit pyval pyval
  | Mint pyval pyval
  | Send pyval pyval pyval
  | Set_view_key pyval pyval
  | Get_balance pyval pyval

fun invoke ::
  "'w env \<Rightarrow> snip20 \<Rightarrow> method_call \<Rightarrow> 'w world \<Rightarrow> (error + pyval) \<times> snip20 \<times> 'w world" where
  "invoke E self (Set_minters accounts) w = set_minters E self accounts w"
| "invoke E self (Deposit account amount) w = deposit E self account amount w"
| "invoke E self (Mint recipient amount) w = mint E self recipient amount w"
| "invoke E self (Send account recipient amount) w = send E self account recipient amount w"
| "invoke E self (Set_view_key account entropy) w = set_view_key E self account entropy w"
| "invoke E self (Get_balance addr password) w = get_balance E self addr password w"

fun invoke_all :: "'w env \<Rightarrow> snip20 \<Rightarrow> method_call list \<Rightarrow> 'w world \<Rightarrow> snip20 \<times> 'w world" where
  "invoke_all E self [] w = (self, w)"
| "invoke_all E self (m # ms) w =
     (let (r, self', w') = invoke E self m w in invoke_all E self' ms w')"

subsection \<open>Reading a logged call\<close>

text \<open>
  Modelled from the spec: the signatures of \<^verbatim>\<open>secretlib.execute_contract\<close> and
  \<^verbatim>\<open>secretlib.query_contract\<close> are not in the sources. The spec reads the positional
  arguments of \<^verbatim>\<open>execute_contract\<close> as the contract address, the message, the account
  that signs and sends the transaction, the backend and, when there is a fifth, the
  value attached to the transaction; \<^verbatim>\<open>query_contract\<close> takes the contract address
  and the message.
\<close>

fun call_message :: "call \<Rightarrow> pyval option" where
  "call_message (ExecuteContract (c # m # rest)) = Some m"
| "call_message (QueryContract (c # m # rest)) = Some m"
| "call_message _ = None"

fun call_sender :: "call \<Rightarrow> pyval option" where
  "call_sender (ExecuteContract (c # m # u # rest)) = Some u"
| "call_sender _ = None"

fun call_value :: "call \<Rightarrow> pyval option" where
  "call_value (ExecuteContract [c, m, u, b, v]) = Some v"
| "call_value _ = None"




subsection \<open>A test backend\<close>

text \<open>
  A small backend on which the properties below are run. Its state counts the
  transactions. A transaction sent by the account \<^verbatim>\<open>nobody\<close> is refused; every other
  one is answered with a viewing key. A query is answered with a balance when the
  message carries the key \<^verbatim>\<open>api_key_1\<close>, and with an error document otherwise. The
  decoder knows the one document the backend writes.
\<close>

definition test_doc :: string where
  \<open>test_doc = ''{"create_viewing_key": {"key": "api_key_1"}}''\<close>

definition test_env :: "nat env" where
  \<open>test_env =
     \<lparr>execute_contract = (\<lambda>args n.
        (case args of
           c # m # u # rest \<Rightarrow>
             if u = PStr ''nobody'' then (Inl (Raised ''account not found''), n)
             else (Inr (PDict [(''output_data_as_string'', PStr test_doc)]), Suc n)
         | _ \<Rightarrow> (Inl TypeError, n))),
      query_contract = (\<lambda>args n.
        (case args of
           [c, PStr m] \<Rightarrow>
             if m = ''{"balance": {"key": "api_key_1", "address": "alice"}}''
             then (Inr (PDict [(''balance'', PDict [(''amount'', PStr ''100'')])]), n)
             else (Inr (PDict [(''viewing_key_error'', PDict [(''msg'', PStr ''Wrong viewing key'')])]), n)
         | _ \<Rightarrow> (Inl TypeError, n))),
      Contract_init = (\<lambda>args n.
        (case args of
           [c, m, l, a, u, g, b] \<Rightarrow> (Inr (PStr ''secret1token'', a, b), Suc n)
         | _ \<Rightarrow> (Inl TypeError, n))),
      json_parse = (\<lambda>s.
        if s = test_doc
        then Inr (PDict [(''create_viewing_key'', PDict [(''key'', PStr ''api_key_1'')])])
        else Inl JSONDecodeError)\<rparr>\<close>

definition test_token :: snip20 where
  "test_token =
     \<lparr>view_key = PStr [], address = PStr ''secret1token'', admin = PStr ''a'',
      backend = PStr ''test''\<rparr>"

definition test_world :: "nat world" where
  "test_world = \<lparr>calls = [], chain = 0\<rparr>"

subsection \<open>Notions for reading JSON text\<close>

text \<open>
  Used to show that the text written by \<^verbatim>\<open>json.dumps\<close> determines the object: a decimal
  digit, and a rest of text that cannot continue a number.
\<close>

definition is_digit :: "char \<Rightarrow> bool" where
  "is_digit c = (c \<in> set ''0123456789'')"

definition delimited :: "string \<Rightarrow> bool" where
  "delimited r = (case r of [] \<Rightarrow> True | c # _ \<Rightarrow> \<not> is_digit c)"

section \<open>Properties\<close>

subsection \<open>Auxiliary facts\<close>

lemma json_str_request_names [simp]:
  "json_str ''set_minters'' = [CHR 0x22] @ ''set_minters'' @ [CHR 0x22]"
  "json_str ''minters'' = [CHR 0x22] @ ''minters'' @ [CHR 0x22]"
  "json_str ''deposit'' = [CHR 0x22] @ ''deposit'' @ [CHR 0x22]"
  "json_str ''mint'' = [CHR 0x22] @ ''mint'' @ [CHR 0x22]"
  "json_str ''send'' = [CHR 0x22] @ ''send'' @ [CHR 0x22]"
  "json_str ''recipient'' = [CHR 0x22] @ ''recipient'' @ [CHR 0x22]"
  "json_str ''amount'' = [CHR 0x22] @ ''amount'' @ [CHR 0x22]"
  by (simp_all add: json_str_def json_escape_def)

lemma json_str_init_names [simp]:
  "json_str ''name'' = [CHR 0x22] @ ''name'' @ [CHR 0x22]"
  "json_str ''symbol'' = [CHR 0x22] @ ''symbol'' @ [CHR 0x22]"
  "json_str ''decimals'' = [CHR 0x22] @ ''decimals'' @ [CHR 0x22]"
  "json_str ''prng_seed'' = [CHR 0x22] @ ''prng_seed'' @ [CHR 0x22]"
  "json_str ''config'' = [CHR 0x22] @ ''config'' @ [CHR 0x22]"
  "json_str ''public_total_supply'' = [CHR 0x22] @ ''public_total_supply'' @ [CHR 0x22]"
  "json_str ''enable_deposit'' = [CHR 0x22] @ ''enable_deposit'' @ [CHR 0x22]"
  "json_str ''enable_redeem'' = [CHR 0x22] @ ''enable_redeem'' @ [CHR 0x22]"
  "json_str ''enable_mint'' = [CHR 0x22] @ ''enable_mint'' @ [CHR 0x22]"
  "json_str ''enable_burn'' = [CHR 0x22] @ ''enable_burn'' @ [CHR 0x22]"
  by (simp_all add: json_str_def json_escape_def)

lemma execute_contract_logged:
  "secretlib_execute_contract E args w =
     (fst (execute_contract E args (chain w)),
      \<lparr>calls = calls w @ [ExecuteContract args], chain = snd (execute_contract E args (chain w))\<rparr>)"
  by (simp add: secretlib_execute_contract_def split: prod.splits)

lemma query_contract_logged:
  "secretlib_query_contract E args w =
     (fst (query_contract E args (chain w)),
      \<lparr>calls = calls w @ [QueryContract args], chain = snd (query_contract E args (chain w))\<rparr>)"
  by (simp add: secretlib_query_contract_def split: prod.splits)

lemma super_init_logged:
  "super_init E args w =
     (fst (Contract_init E args (chain w)),
      \<lparr>calls = calls w @ [ContractInit args], chain = snd (Contract_init E args (chain w))\<rparr>)"
  by (simp add: super_init_def split: prod.splits)



lemma and_then_Inr_iff: "and_then r f = Inr y \<longleftrightarrow> (\<exists>x. r = Inr x \<and> f x = Inr y)"
  by (cases r) (simp_all add: and_then_def)

lemma and_then_Inl_iff:
  "and_then r f = Inl e \<longleftrightarrow> r = Inl e \<or> (\<exists>x. r = Inr x \<and> f x = Inl e)"
  by (cases r) (auto simp: and_then_def)

lemma json_loads_Inr_iff:
  "json_loads parse v = Inr doc \<longleftrightarrow> (\<exists>s. v = PStr s \<and> parse s = Inr doc)"
  by (cases v) (simp_all add: json_loads_def)

lemma getitem_Inr_iff:
  "getitem v k = Inr x \<longleftrightarrow> (\<exists>kvs. v = PDict kvs \<and> map_of kvs k = Some x)"
  by (cases v) (auto split: option.splits)

lemmas test_defs =
  test_env_def test_token_def test_world_def test_doc_def json_str_def json_escape_def
  json_loads_def

subsection \<open>The text determines the object\<close>

lemma hexdigit_inj: "a < 16 \<Longrightarrow> b < 16 \<Longrightarrow> hexdigit a = hexdigit b \<Longrightarrow> a = b"
proof -
  assume a: "a < 16" and b: "b < 16" and eq: "hexdigit a = hexdigit b"
  have d: "distinct ''0123456789abcdef''" by simp
  have l: "length ''0123456789abcdef'' = 16" by simp
  from eq a b have "''0123456789abcdef'' ! a = ''0123456789abcdef'' ! b"
    by (simp add: hexdigit_def)
  with d a b l show "a = b"
    by (metis nth_eq_iff_index_eq)
qed

lemma hexdigit_is_digit: "n < 10 \<Longrightarrow> is_digit (hexdigit n)"
proof -
  assume "n < 10"
  then have "n \<in> {0,1,2,3,4,5,6,7,8,9}" by auto
  then show ?thesis
    by (auto simp: hexdigit_def is_digit_def)
qed

lemma str_nat_simps':
  "n < 10 \<Longrightarrow> str_nat n = [hexdigit n]"
  "\<not> n < 10 \<Longrightarrow> str_nat n = str_nat (n div 10) @ [hexdigit (n mod 10)]"
  by (simp_all add: str_nat.simps)

lemma str_nat_nonempty: "str_nat n \<noteq> []"
  by (cases "n < 10") (simp_all add: str_nat_simps')

lemma str_nat_digits: "\<forall>c \<in> set (str_nat n). is_digit c"
proof (induction n rule: str_nat.induct)
  case (1 n)
  show ?case
  proof (cases "n < 10")
    case True
    then show ?thesis by (simp add: str_nat_simps' hexdigit_is_digit)
  next
    case False
    with "1.IH" show ?thesis
      by (simp add: str_nat_simps' hexdigit_is_digit)
  qed
qed

lemma str_nat_inj: "str_nat n = str_nat m \<Longrightarrow> n = m"
proof (induction n arbitrary: m rule: str_nat.induct)
  case (1 n)
  show ?case
  proof (cases "n < 10")
    case n: True
    show ?thesis
    proof (cases "m < 10")
      case True
      with n "1.prems" show ?thesis
        by (simp add: str_nat_simps' hexdigit_inj)
    next
      case False
      with n "1.prems" str_nat_nonempty [of "m div 10"] show ?thesis
        by (simp add: str_nat_simps')
    qed
  next
    case n: False
    show ?thesis
    proof (cases "m < 10")
      case True
      with n "1.prems" str_nat_nonempty [of "n div 10"] show ?thesis
        by (simp add: str_nat_simps')
    next
      case False
      with n "1.prems" have eq: "str_nat (n div 10) = str_nat (m div 10)"
        and d: "hexdigit (n mod 10) = hexdigit (m mod 10)"
        by (simp_all add: str_nat_simps')
      from "1.IH" [OF n eq] have "n div 10 = m div 10" .
      moreover from d have "n mod 10 = m mod 10"
        by (intro hexdigit_inj) simp_all
      ultimately show ?thesis
        by (metis div_mult_mod_eq)
    qed
  qed
qed

lemma digits_prefix_unique:
  assumes "\<forall>c \<in> set xs. is_digit c" "\<forall>c \<in> set ys. is_digit c"
    and "delimited r" "delimited r'" and "xs @ r = ys @ r'"
  shows "xs = ys \<and> r = r'"
proof -
  have "takeWhile is_digit (xs @ r) = xs" "dropWhile is_digit (xs @ r) = r"
    using assms(1,3) by (auto simp: delimited_def takeWhile_append2 dropWhile_append2 split: list.splits)
  moreover have "takeWhile is_digit (ys @ r') = ys" "dropWhile is_digit (ys @ r') = r'"
    using assms(2,4) by (auto simp: delimited_def takeWhile_append2 dropWhile_append2 split: list.splits)
  ultimately show ?thesis
    using assms(5) by simp
qed

lemma str_nat_hd_digit: "is_digit (hd (str_nat n))"
  using str_nat_digits [of n] str_nat_nonempty [of n] by (cases "str_nat n") auto

lemma str_int_unique:
  assumes "str_int i @ r = str_int j @ r'" "delimited r" "delimited r'"
  shows "i = j \<and> r = r'"
proof -
  have minus: "\<not> is_digit (CHR ''-'')" by (simp add: is_digit_def)
  have neg: False if "str_nat n @ s = CHR ''-'' # t" for n s t
    using that str_nat_hd_digit [of n] str_nat_nonempty [of n] minus
    by (cases "str_nat n") auto
  show ?thesis
  proof (cases "i < 0")
    case i: True
    show ?thesis
    proof (cases "j < 0")
      case True
      with i assms(1) have "str_nat (nat (- i)) @ r = str_nat (nat (- j)) @ r'"
        by (simp add: str_int_def)
      with digits_prefix_unique [OF str_nat_digits str_nat_digits assms(2,3)]
      have "str_nat (nat (- i)) = str_nat (nat (- j))" "r = r'" by auto
      with str_nat_inj i True show ?thesis by fastforce
    next
      case False
      with i assms(1) neg [of "nat j" r' "str_nat (nat (- i)) @ r"] show ?thesis
        by (simp add: str_int_def)
    qed
  next
    case i: False
    show ?thesis
    proof (cases "j < 0")
      case True
      with i assms(1) neg [of "nat i" r "str_nat (nat (- j)) @ r'"] show ?thesis
        by (simp add: str_int_def)
    next
      case False
      with i assms(1) have "str_nat (nat i) @ r = str_nat (nat j) @ r'"
        by (simp add: str_int_def)
      with digits_prefix_unique [OF str_nat_digits str_nat_digits assms(2,3)]
      have "str_nat (nat i) = str_nat (nat j)" "r = r'" by auto
      with str_nat_inj i False show ?thesis by fastforce
    qed
  qed
qed


lemma of_char_div_16: "(of_char c :: nat) div 16 < 16"
proof -
  have "(of_char c :: nat) < 256" by simp
  then show ?thesis by arith
qed

lemma of_char_div_mod_eq:
  assumes "(of_char c :: nat) div 16 = of_char d div 16" "(of_char c :: nat) mod 16 = of_char d mod 16"
  shows "c = d"
proof -
  have "(of_char c :: nat) = of_char d"
    using assms by (metis div_mult_mod_eq)
  then show ?thesis by simp
qed

lemma json_escape_unique:
  assumes "json_escape c @ X = json_escape d @ Y"
  shows "c = d \<and> X = Y"
proof -
  have hex: "c = d"
    if "hexdigit (of_char c div 16) = hexdigit (of_char d div 16)"
       "hexdigit (of_char c mod 16) = hexdigit (of_char d mod 16)"
  proof -
    from that(1) have "(of_char c :: nat) div 16 = of_char d div 16"
      by (intro hexdigit_inj of_char_div_16)
    moreover from that(2) have "(of_char c :: nat) mod 16 = of_char d mod 16"
      by (intro hexdigit_inj) simp_all
    ultimately show ?thesis by (rule of_char_div_mod_eq)
  qed
  from assms show ?thesis
    by (auto simp: json_escape_def split: if_splits dest: hex)
qed

lemma json_escape_no_quote: "json_escape c @ X \<noteq> CHR 0x22 # Y"
  by (auto simp: json_escape_def)

lemma json_chars_unique:
  "concat (map json_escape s) @ CHR 0x22 # r = concat (map json_escape t) @ CHR 0x22 # r'
   \<Longrightarrow> s = t \<and> r = r'"
proof (induction s arbitrary: t)
  case Nil
  then show ?case
    using json_escape_no_quote by (cases t) (auto simp: eq_commute [of "CHR 0x22 # _"])
next
  case (Cons c s)
  show ?case
  proof (cases t)
    case Nil
    with Cons.prems json_escape_no_quote show ?thesis by auto
  next
    case (Cons d t')
    with Cons.prems have "json_escape c @ (concat (map json_escape s) @ CHR 0x22 # r)
        = json_escape d @ (concat (map json_escape t') @ CHR 0x22 # r')"
      by simp
    from json_escape_unique [OF this] Cons.IH [of t'] Cons show ?thesis
      by simp
  qed
qed

lemma json_str_unique: "json_str s @ r = json_str t @ r' \<Longrightarrow> s = t \<and> r = r'"
  using json_chars_unique [of s r t r'] by (simp add: json_str_def)

lemma str_join_Cons_append:
  "str_join sep (x # xs) @ T = x @ (if xs = [] then T else sep @ str_join sep xs @ T)"
  by (cases xs) simp_all

lemma separated_unique:
  fixes f :: "'a \<Rightarrow> string"
  assumes el: "\<And>x y s s'. x \<in> set xs \<Longrightarrow> f x @ s = f y @ s' \<Longrightarrow> delimited s \<Longrightarrow> delimited s'
                 \<Longrightarrow> x = y \<and> s = s'"
    and hd_f: "\<And>y s. hd (f y @ s) \<noteq> c"
    and c: "c \<noteq> CHR '',''" "\<not> is_digit c"
    and eq: "str_join '', '' (map f xs) @ c # r = str_join '', '' (map f ys) @ c # r'"
  shows "xs = ys \<and> r = r'"
  using el eq
proof (induction xs arbitrary: ys)
  case Nil
  show ?case
  proof (cases ys)
    case Nil
    with Nil.prems(2) show ?thesis by simp
  next
    case (Cons y ys')
    with Nil.prems(2) have "c # r = f y @ (if ys' = [] then c # r' else '', '' @ str_join '', '' (map f ys') @ c # r')"
      by (simp only: list.map str_join_Cons_append str_join.simps append_Nil map_is_Nil_conv)
    then have "hd (f y @ (if ys' = [] then c # r' else '', '' @ str_join '', '' (map f ys') @ c # r')) = hd (c # r)"
      by (rule arg_cong [where f = hd, OF sym])
    then have "hd (f y @ (if ys' = [] then c # r' else '', '' @ str_join '', '' (map f ys') @ c # r')) = c"
      by simp
    with hd_f show ?thesis by blast
  qed
next
  case (Cons x xs)
  let ?tail = "\<lambda>zs q. if zs = [] then c # q else '', '' @ str_join '', '' (map f zs) @ c # q"
  have delim: "delimited (?tail zs q)" for zs :: "'a list" and q
    using c(2) by (simp add: delimited_def is_digit_def)
  show ?case
  proof (cases ys)
    case Nil
    with Cons.prems(2) have "f x @ ?tail xs r = c # r'"
      by (simp only: list.map str_join_Cons_append str_join.simps append_Nil map_is_Nil_conv)
    then have "hd (f x @ ?tail xs r) = hd (c # r')"
      by (rule arg_cong [where f = hd])
    then have "hd (f x @ ?tail xs r) = c"
      by simp
    with hd_f show ?thesis by blast
  next
    case ys: (Cons y ys')
    with Cons.prems(2) have "f x @ ?tail xs r = f y @ ?tail ys' r'"
      by (simp only: list.map str_join_Cons_append map_is_Nil_conv)
    from Cons.prems(1) [OF _ this delim delim] have xy: "x = y" and tails: "?tail xs r = ?tail ys' r'"
      by simp_all
    show ?thesis
    proof (cases "xs = []")
      case True
      with tails c(1) have "ys' = []" "r = r'"
        by (auto split: if_splits)
      with True xy ys show ?thesis by simp
    next
      case False
      with tails c(1) have ne: "ys' \<noteq> []"
        by (auto split: if_splits)
      with False tails have rest: "str_join '', '' (map f xs) @ c # r = str_join '', '' (map f ys') @ c # r'"
        by simp
      have "xs = ys' \<and> r = r'"
      proof (rule Cons.IH [OF _ rest])
        fix z y s s'
        assume "z \<in> set xs" "f z @ s = f y @ s'" "delimited s" "delimited s'"
        then show "z = y \<and> s = s'"
          using Cons.prems(1) [of z s y s'] by simp
      qed
      with xy ys show ?thesis by simp
    qed
  qed
qed

lemma str_int_hd: "hd (str_int i @ s) = CHR ''-'' \<or> is_digit (hd (str_int i @ s))"
  using str_nat_hd_digit [of "nat i"] str_nat_nonempty [of "nat i"]
  by (cases "str_nat (nat i)") (auto simp: str_int_def)

lemma json_dumps_hd:
  "hd (json_dumps v @ s) =
     (case v of PNone \<Rightarrow> CHR ''n'' | PBool b \<Rightarrow> (if b then CHR ''t'' else CHR ''f'')
      | PInt i \<Rightarrow> hd (str_int i @ s) | PStr _ \<Rightarrow> CHR 0x22 | PList _ \<Rightarrow> CHR ''[''
      | PDict _ \<Rightarrow> CHR ''{'')"
  by (cases v) (simp_all add: json_str_def)

lemma json_dumps_hd_not_close:
  "hd (json_dumps v @ s) \<notin> {CHR '']'', CHR ''}'', CHR '',''}"
proof (cases v)
  case (PInt i)
  with str_int_hd [of i s] show ?thesis
    by (auto simp: is_digit_def)
next
  case (PBool b)
  then show ?thesis by simp
qed (simp_all add: json_str_def)

lemma same_shape:
  assumes "json_dumps v @ r = json_dumps u @ r'"
  shows "case (v, u) of
           (PNone, PNone) \<Rightarrow> True
         | (PBool a, PBool b) \<Rightarrow> a = b
         | (PInt _, PInt _) \<Rightarrow> True
         | (PStr _, PStr _) \<Rightarrow> True
         | (PList _, PList _) \<Rightarrow> True
         | (PDict _, PDict _) \<Rightarrow> True
         | _ \<Rightarrow> False"
proof -
  from assms have h: "hd (json_dumps v @ r) = hd (json_dumps u @ r')"
    by simp
  have i: "hd (str_int i @ s) \<notin> {CHR ''n'', CHR ''t'', CHR ''f'', CHR 0x22, CHR ''['', CHR ''{''}" for i s
    using str_int_hd [of i s] by (auto simp: is_digit_def)
  from h i [of _ r] i [of _ r'] show ?thesis
    unfolding json_dumps_hd
    by (cases v; cases u) (auto split: if_splits)
qed

lemma json_dumps_unique:
  "json_dumps v @ r = json_dumps u @ r' \<Longrightarrow> delimited r \<Longrightarrow> delimited r' \<Longrightarrow> v = u \<and> r = r'"
proof (induction v arbitrary: u r r')
  case PNone
  from same_shape [OF PNone(1)] have "u = PNone"
    by (cases u) simp_all
  with PNone(1) show ?case by simp
next
  case (PBool b)
  from same_shape [OF PBool(1)] have "u = PBool b"
    by (cases u) simp_all
  with PBool(1) show ?case by simp
next
  case (PInt i)
  from same_shape [OF PInt(1)] obtain j where u: "u = PInt j"
    by (cases u) simp_all
  with PInt str_int_unique [of i r j r'] show ?case by simp
next
  case (PStr s)
  from same_shape [OF PStr(1)] obtain t where u: "u = PStr t"
    by (cases u) simp_all
  with PStr json_str_unique [of s r t r'] show ?case by simp
next
  case (PList xs)
  from same_shape [OF PList(2)] obtain ys where u: "u = PList ys"
    by (cases u) simp_all
  with PList(2) have eq: "str_join '', '' (map json_dumps xs) @ CHR '']'' # r
      = str_join '', '' (map json_dumps ys) @ CHR '']'' # r'"
    by simp
  have "xs = ys \<and> r = r'"
  proof (rule separated_unique [OF _ _ _ _ eq])
    fix x y s s'
    assume "x \<in> set xs" "json_dumps x @ s = json_dumps y @ s'" "delimited s" "delimited s'"
    then show "x = y \<and> s = s'" by (rule PList.IH)
  next
    fix y s
    show "hd (json_dumps y @ s) \<noteq> CHR '']''"
      using json_dumps_hd_not_close [of y s] by simp
  qed (simp_all add: is_digit_def)
  with u show ?case by simp
next
  case (PDict kvs)
  from same_shape [OF PDict(2)] obtain kvs' where u: "u = PDict kvs'"
    by (cases u) simp_all
  let ?f = "\<lambda>kv. json_str (fst kv) @ '': '' @ json_dumps (snd kv)"
  from u PDict(2) have eq: "str_join '', '' (map ?f kvs) @ CHR ''}'' # r
      = str_join '', '' (map ?f kvs') @ CHR ''}'' # r'"
    by simp
  have "kvs = kvs' \<and> r = r'"
  proof (rule separated_unique [OF _ _ _ _ eq])
    fix x y :: "string \<times> pyval" and s s'
    assume x: "x \<in> set kvs" and e: "?f x @ s = ?f y @ s'" and d: "delimited s" "delimited s'"
    from e have "json_str (fst x) @ ('': '' @ json_dumps (snd x) @ s)
        = json_str (fst y) @ ('': '' @ json_dumps (snd y) @ s')"
      by simp
    from json_str_unique [OF this] have k: "fst x = fst y"
      and v: "json_dumps (snd x) @ s = json_dumps (snd y) @ s'"
      by simp_all
    have "snd x \<in> Basic_BNFs.snds x"
      by (cases x) simp
    from PDict.IH [OF x this v d] k show "x = y \<and> s = s'"
      by (simp add: prod_eq_iff)
  next
    fix y :: "string \<times> pyval" and s
    show "hd (?f y @ s) \<noteq> CHR ''}''"
      by (simp add: json_str_def)
  qed (simp_all add: is_digit_def)
  with u show ?case by simp
qed

lemma json_dumps_inj: "json_dumps v = json_dumps u \<longleftrightarrow> v = u"
  using json_dumps_unique [of v "[]" u "[]"] by (auto simp: delimited_def)

subsection \<open>The requests of the four transactions\<close>

text \<open>
  C6. For every list of accounts, empty or not and whatever its elements,
  \<^verbatim>\<open>set_minters\<close> makes exactly one call of \<^verbatim>\<open>execute_contract\<close>. Its message is the
  JSON text of \<^verbatim>\<open>{"set_minters": {"minters": accounts}}\<close>, in which the list stands as
  \<^verbatim>\<open>json.dumps\<close> writes it; the sender is the attribute \<^verbatim>\<open>admin\<close>; the value returned
  is the response of the backend (or the exception it raised), as it is.
\<close>

theorem set_minters_request:
  \<open>let msg = json_dumps (PDict [(''set_minters'', PDict [(''minters'', PList accounts)])]);
       c = ExecuteContract [address self, PStr msg, admin self, backend self];
       (r, self', w') = set_minters E self (PList accounts) w
   in calls w' = calls w @ [c]
      \<and> msg = ''{"set_minters": {"minters": '' @ json_dumps (PList accounts) @ ''}}''
      \<and> call_message c = Some (PStr msg)
      \<and> call_sender c = Some (admin self)
      \<and> call_value c = None
      \<and> (r, chain w') = execute_contract E [address self, PStr msg, admin self, backend self] (chain w)\<close>
  by (simp add: set_minters_def execute_contract_logged Let_def)

theorem set_minters_request_witness:
  \<open>fst (set_minters test_env test_token (PList [PStr ''alice'', PStr ''bob'']) test_world) =
     Inr (PDict [(''output_data_as_string'', PStr test_doc)])
   \<and> snd (snd (set_minters test_env test_token (PList [PStr ''alice'', PStr ''bob'']) test_world)) =
      \<lparr>calls = [ExecuteContract [PStr ''secret1token'',
                 PStr ''{"set_minters": {"minters": ["alice", "bob"]}}'', PStr ''a'', PStr ''test'']],
       chain = 1\<rparr>
   \<and> fst (set_minters test_env test_token (PList []) test_world) =
     Inr (PDict [(''output_data_as_string'', PStr test_doc)])\<close>
proof -
  have a: \<open>fst (set_minters test_env test_token (PList [PStr ''alice'', PStr ''bob'']) test_world) =
     Inr (PDict [(''output_data_as_string'', PStr test_doc)])
   \<and> snd (snd (set_minters test_env test_token (PList [PStr ''alice'', PStr ''bob'']) test_world)) =
      \<lparr>calls = [ExecuteContract [PStr ''secret1token'',
                 PStr ''{"set_minters": {"minters": ["alice", "bob"]}}'', PStr ''a'', PStr ''test'']],
       chain = 1\<rparr>\<close>
    using set_minters_request [where accounts = "[PStr ''alice'', PStr ''bob'']"
        and self = test_token and E = test_env and w = test_world]
    by (cases "set_minters test_env test_token (PList [PStr ''alice'', PStr ''bob'']) test_world")
      (simp add: test_defs)
  have b: "fst (set_minters test_env test_token (PList []) test_world) =
     Inr (PDict [(''output_data_as_string'', PStr test_doc)])"
    using set_minters_request [where accounts = "[]" and self = test_token and E = test_env
        and w = test_world]
    by (cases "set_minters test_env test_token (PList []) test_world") (simp add: test_defs)
  from a b show ?thesis
    by blast
qed

text \<open>
  C5. For every account and amount, \<^verbatim>\<open>deposit\<close> makes exactly one call of
  \<^verbatim>\<open>execute_contract\<close>. Its message is the constant text \<^verbatim>\<open>{"deposit": {}}\<close>, whatever
  the arguments are; the amount is the fifth positional argument of the call, the value
  of the transaction, and the account is its sender.
\<close>

theorem deposit_request:
  \<open>let c = ExecuteContract [address self, PStr ''{"deposit": {}}'', account, backend self, amount];
       (r, self', w') = deposit E self account amount w
   in calls w' = calls w @ [c]
      \<and> json_dumps (PDict [(''deposit'', PDict [])]) = ''{"deposit": {}}''
      \<and> call_message c = Some (PStr ''{"deposit": {}}'')
      \<and> call_sender c = Some account
      \<and> call_value c = Some amount
      \<and> (r, chain w') =
          execute_contract E [address self, PStr ''{"deposit": {}}'', account, backend self, amount]
            (chain w)\<close>
  by (simp add: deposit_def execute_contract_logged Let_def)

theorem deposit_request_witness:
  \<open>fst (deposit test_env test_token (PStr ''alice'') (PInt 1000000) test_world) =
     Inr (PDict [(''output_data_as_string'', PStr test_doc)])
   \<and> snd (snd (deposit test_env test_token (PStr ''alice'') (PInt 1000000) test_world)) =
      \<lparr>calls = [ExecuteContract [PStr ''secret1token'', PStr ''{"deposit": {}}'', PStr ''alice'',
                 PStr ''test'', PInt 1000000]],
       chain = 1\<rparr>\<close>
  using deposit_request [where self = test_token and account = "PStr ''alice''"
      and amount = "PInt 1000000" and E = test_env and w = test_world]
  by (cases "deposit test_env test_token (PStr ''alice'') (PInt 1000000) test_world")
    (simp add: test_defs)





subsection \<open>The viewing key and the balance\<close>

text \<open>
  C1. For every account and entropy string, \<^verbatim>\<open>set_view_key\<close> makes exactly one call
  of \<^verbatim>\<open>execute_contract\<close>, with the JSON text of
  \<^verbatim>\<open>{"create_viewing_key": {"entropy": entropy}}\<close> as message and the account as sender.
  It returns a value \<open>k\<close> exactly when the backend answers with a dictionary whose
  field \<^verbatim>\<open>output_data_as_string\<close> is a string that the decoder accepts, and \<open>k\<close> is the
  value under \<^verbatim>\<open>key\<close> of the dictionary under \<^verbatim>\<open>create_viewing_key\<close> of the decoded
  document. It raises \<open>e\<close> exactly when \<open>e\<close> is the exception of the first step that
  fails: the call, one of the three subscripts, or the decoding. A missing key is a
  \<^verbatim>\<open>KeyError\<close> of that key, and text that the decoder rejects is the decoder's
  exception. Nothing is retried: the backend is left as the one call left it.
\<close>

theorem set_view_key_result:
  \<open>let msg = json_dumps (PDict [(''create_viewing_key'', PDict [(''entropy'', PStr entropy)])]);
       args = [address self, PStr msg, account, backend self];
       c = ExecuteContract args;
       (resp, ch) = execute_contract E args (chain w);
       (r, self', w') = set_view_key E self account (PStr entropy) w
   in calls w' = calls w @ [c] \<and> chain w' = ch
      \<and> msg = ''{"create_viewing_key": {"entropy": '' @ json_str entropy @ ''}}''
      \<and> call_message c = Some (PStr msg)
      \<and> call_sender c = Some account
      \<and> (\<forall>k. r = Inr k \<longleftrightarrow>
            (\<exists>top s doc inner.
               resp = Inr (PDict top) \<and> map_of top ''output_data_as_string'' = Some (PStr s)
               \<and> json_parse E s = Inr (PDict doc)
               \<and> map_of doc ''create_viewing_key'' = Some (PDict inner)
               \<and> map_of inner ''key'' = Some k))
      \<and> (\<forall>e. r = Inl e \<longleftrightarrow>
            resp = Inl e
            \<or> (\<exists>body. resp = Inr body \<and>
                 (getitem body ''output_data_as_string'' = Inl e
                  \<or> (\<exists>field. getitem body ''output_data_as_string'' = Inr field \<and>
                       (json_loads (json_parse E) field = Inl e
                        \<or> (\<exists>doc. json_loads (json_parse E) field = Inr doc \<and>
                             (getitem doc ''create_viewing_key'' = Inl e
                              \<or> (\<exists>inner. getitem doc ''create_viewing_key'' = Inr inner
                                    \<and> getitem inner ''key'' = Inl e))))))))
      \<and> (\<forall>top. resp = Inr (PDict top) \<and> map_of top ''output_data_as_string'' = None
            \<longrightarrow> r = Inl (KeyError ''output_data_as_string''))
      \<and> (\<forall>top s e. resp = Inr (PDict top) \<and> map_of top ''output_data_as_string'' = Some (PStr s)
            \<and> json_parse E s = Inl e \<longrightarrow> r = Inl e)
      \<and> (\<forall>top s doc. resp = Inr (PDict top)
            \<and> map_of top ''output_data_as_string'' = Some (PStr s)
            \<and> json_parse E s = Inr (PDict doc) \<and> map_of doc ''create_viewing_key'' = None
            \<longrightarrow> r = Inl (KeyError ''create_viewing_key''))
      \<and> (\<forall>top s doc inner. resp = Inr (PDict top)
            \<and> map_of top ''output_data_as_string'' = Some (PStr s)
            \<and> json_parse E s = Inr (PDict doc)
            \<and> map_of doc ''create_viewing_key'' = Some (PDict inner) \<and> map_of inner ''key'' = None
            \<longrightarrow> r = Inl (KeyError ''key''))\<close>
proof -
  let ?msg = "json_dumps (PDict [(''create_viewing_key'', PDict [(''entropy'', PStr entropy)])])"
  let ?args = "[address self, PStr ?msg, account, backend self]"
  obtain resp ch where ex: "execute_contract E ?args (chain w) = (resp, ch)"
    by (cases "execute_contract E ?args (chain w)")
  obtain r s w' where sv: "set_view_key E self account (PStr entropy) w = (r, s, w')"
    by (cases "set_view_key E self account (PStr entropy) w")
  have r: "r = and_then (and_then (and_then (and_then resp
            (\<lambda>x. getitem x ''output_data_as_string''))
            (json_loads (json_parse E)))
            (\<lambda>doc. getitem doc ''create_viewing_key''))
            (\<lambda>d. getitem d ''key'')"
    and w': "w' = \<lparr>calls = calls w @ [ExecuteContract ?args], chain = ch\<rparr>"
    using sv ex
    by (auto simp add: set_view_key_def execute_contract_logged Let_def simp del: json_dumps.simps)
  have shape: \<open>?msg = ''{"create_viewing_key": {"entropy": '' @ json_str entropy @ ''}}''\<close>
    by (simp add: json_str_def json_escape_def)
  have ok: "r = Inr k \<longleftrightarrow>
            (\<exists>top s doc inner.
               resp = Inr (PDict top) \<and> map_of top ''output_data_as_string'' = Some (PStr s)
               \<and> json_parse E s = Inr (PDict doc)
               \<and> map_of doc ''create_viewing_key'' = Some (PDict inner)
               \<and> map_of inner ''key'' = Some k)" for k
    unfolding r and_then_Inr_iff json_loads_Inr_iff getitem_Inr_iff by blast
  have bad: "r = Inl e \<longleftrightarrow>
            resp = Inl e
            \<or> (\<exists>body. resp = Inr body \<and>
                 (getitem body ''output_data_as_string'' = Inl e
                  \<or> (\<exists>field. getitem body ''output_data_as_string'' = Inr field \<and>
                       (json_loads (json_parse E) field = Inl e
                        \<or> (\<exists>doc. json_loads (json_parse E) field = Inr doc \<and>
                             (getitem doc ''create_viewing_key'' = Inl e
                              \<or> (\<exists>inner. getitem doc ''create_viewing_key'' = Inr inner
                                    \<and> getitem inner ''key'' = Inl e)))))))" for e
    unfolding r and_then_Inl_iff and_then_Inr_iff by blast
  have k1: "\<forall>top. resp = Inr (PDict top) \<and> map_of top ''output_data_as_string'' = None
            \<longrightarrow> r = Inl (KeyError ''output_data_as_string'')"
    by (simp add: r and_then_def)
  have k2: "\<forall>top s e. resp = Inr (PDict top) \<and> map_of top ''output_data_as_string'' = Some (PStr s)
            \<and> json_parse E s = Inl e \<longrightarrow> r = Inl e"
    by (simp add: r and_then_def json_loads_def)
  have k3: "\<forall>top s doc. resp = Inr (PDict top)
            \<and> map_of top ''output_data_as_string'' = Some (PStr s)
            \<and> json_parse E s = Inr (PDict doc) \<and> map_of doc ''create_viewing_key'' = None
            \<longrightarrow> r = Inl (KeyError ''create_viewing_key'')"
    by (simp add: r and_then_def json_loads_def)
  have k4: "\<forall>top s doc inner. resp = Inr (PDict top)
            \<and> map_of top ''output_data_as_string'' = Some (PStr s)
            \<and> json_parse E s = Inr (PDict doc)
            \<and> map_of doc ''create_viewing_key'' = Some (PDict inner) \<and> map_of inner ''key'' = None
            \<longrightarrow> r = Inl (KeyError ''key'')"
    by (simp add: r and_then_def json_loads_def)
  have c1: "calls w' = calls w @ [ExecuteContract ?args]" and c2: "chain w' = ch"
    by (simp_all add: w' del: json_dumps.simps)
  have c3: "call_message (ExecuteContract ?args) = Some (PStr ?msg)"
    and c4: "call_sender (ExecuteContract ?args) = Some account"
    by (simp_all del: json_dumps.simps)
  show ?thesis
    unfolding Let_def ex sv prod.case
    by (intro conjI) (rule c1 c2 c3 c4 shape k1 k2 k3 k4 | (rule allI, rule ok) | (rule allI, rule bad))+
qed

theorem set_view_key_result_witness:
  \<open>fst (set_view_key test_env test_token (PStr ''alice'') (PStr ''seed'') test_world) =
       Inr (PStr ''api_key_1'')
   \<and> snd (snd (set_view_key test_env test_token (PStr ''alice'') (PStr ''seed'') test_world)) =
      \<lparr>calls = [ExecuteContract [PStr ''secret1token'',
                 PStr ''{"create_viewing_key": {"entropy": "seed"}}'', PStr ''alice'', PStr ''test'']],
       chain = 1\<rparr>
   \<and> fst (set_view_key test_env test_token (PStr ''nobody'') (PStr ''seed'') test_world) =
       Inl (Raised ''account not found'')
   \<and> fst (set_view_key (test_env\<lparr>execute_contract := \<lambda>args n. (Inr (PDict [(''logs'', PList [])]), n)\<rparr>)
            test_token (PStr ''alice'') (PStr ''seed'') test_world) =
       Inl (KeyError ''output_data_as_string'')
   \<and> fst (set_view_key (test_env\<lparr>json_parse := \<lambda>s. Inl JSONDecodeError\<rparr>)
            test_token (PStr ''alice'') (PStr ''seed'') test_world) =
       Inl JSONDecodeError
   \<and> fst (set_view_key (test_env\<lparr>json_parse := \<lambda>s. Inr (PDict [(''data'', PDict [])])\<rparr>)
            test_token (PStr ''alice'') (PStr ''seed'') test_world) =
       Inl (KeyError ''create_viewing_key'')
   \<and> fst (set_view_key (test_env\<lparr>json_parse := \<lambda>s. Inr (PDict [(''create_viewing_key'', PDict [])])\<rparr>)
            test_token (PStr ''alice'') (PStr ''seed'') test_world) =
       Inl (KeyError ''key'')\<close>
proof -
  have a: \<open>fst (set_view_key test_env test_token (PStr ''alice'') (PStr ''seed'') test_world) =
       Inr (PStr ''api_key_1'')
   \<and> snd (snd (set_view_key test_env test_token (PStr ''alice'') (PStr ''seed'') test_world)) =
      \<lparr>calls = [ExecuteContract [PStr ''secret1token'',
                 PStr ''{"create_viewing_key": {"entropy": "seed"}}'', PStr ''alice'', PStr ''test'']],
       chain = 1\<rparr>\<close>
    using set_view_key_result [where entropy = "''seed''" and self = test_token
      and account = "PStr ''alice''" and E = test_env and w = test_world]
    by (cases "set_view_key test_env test_token (PStr ''alice'') (PStr ''seed'') test_world")
      (simp add: test_defs)
  have b: "fst (set_view_key test_env test_token (PStr ''nobody'') (PStr ''seed'') test_world) =
       Inl (Raised ''account not found'')"
    using set_view_key_result [where entropy = "''seed''" and self = test_token
      and account = "PStr ''nobody''" and E = test_env and w = test_world]
    by (cases "set_view_key test_env test_token (PStr ''nobody'') (PStr ''seed'') test_world")
      (simp add: test_defs)
  have c: "fst (set_view_key (test_env\<lparr>execute_contract := \<lambda>args n. (Inr (PDict [(''logs'', PList [])]), n)\<rparr>)
            test_token (PStr ''alice'') (PStr ''seed'') test_world) =
       Inl (KeyError ''output_data_as_string'')"
    using set_view_key_result [where entropy = "''seed''" and self = test_token
      and account = "PStr ''alice''" and w = test_world
      and E = "test_env\<lparr>execute_contract := \<lambda>args n. (Inr (PDict [(''logs'', PList [])]), n)\<rparr>"]
    by (cases "set_view_key (test_env\<lparr>execute_contract := \<lambda>args n. (Inr (PDict [(''logs'', PList [])]), n)\<rparr>)
            test_token (PStr ''alice'') (PStr ''seed'') test_world")
      (simp add: test_defs)
  have d: "fst (set_view_key (test_env\<lparr>json_parse := \<lambda>s. Inl JSONDecodeError\<rparr>)
            test_token (PStr ''alice'') (PStr ''seed'') test_world) =
       Inl JSONDecodeError"
    using set_view_key_result [where entropy = "''seed''" and self = test_token
      and account = "PStr ''alice''" and w = test_world
      and E = "test_env\<lparr>json_parse := \<lambda>s. Inl JSONDecodeError\<rparr>"]
    by (cases "set_view_key (test_env\<lparr>json_parse := \<lambda>s. Inl JSONDecodeError\<rparr>)
            test_token (PStr ''alice'') (PStr ''seed'') test_world")
      (simp add: test_defs)
  have e: "fst (set_view_key (test_env\<lparr>json_parse := \<lambda>s. Inr (PDict [(''data'', PDict [])])\<rparr>)
            test_token (PStr ''alice'') (PStr ''seed'') test_world) =
       Inl (KeyError ''create_viewing_key'')"
    using set_view_key_result [where entropy = "''seed''" and self = test_token
      and account = "PStr ''alice''" and w = test_world
      and E = "test_env\<lparr>json_parse := \<lambda>s. Inr (PDict [(''data'', PDict [])])\<rparr>"]
    by (cases "set_view_key (test_env\<lparr>json_parse := \<lambda>s. Inr (PDict [(''data'', PDict [])])\<rparr>)
            test_token (PStr ''alice'') (PStr ''seed'') test_world")
      (simp add: test_defs)
  have f: "fst (set_view_key (test_env\<lparr>json_parse := \<lambda>s. Inr (PDict [(''create_viewing_key'', PDict [])])\<rparr>)
            test_token (PStr ''alice'') (PStr ''seed'') test_world) =
       Inl (KeyError ''key'')"
    using set_view_key_result [where entropy = "''seed''" and self = test_token
      and account = "PStr ''alice''" and w = test_world
      and E = "test_env\<lparr>json_parse := \<lambda>s. Inr (PDict [(''create_viewing_key'', PDict [])])\<rparr>"]
    by (cases "set_view_key (test_env\<lparr>json_parse := \<lambda>s. Inr (PDict [(''create_viewing_key'', PDict [])])\<rparr>)
            test_token (PStr ''alice'') (PStr ''seed'') test_world")
      (simp add: test_defs)
  from a b c d e f show ?thesis
    by blast
qed

text \<open>
  C2. For every address and viewing key, \<^verbatim>\<open>get_balance\<close> makes exactly one call of
  \<^verbatim>\<open>query_contract\<close>, with the JSON text of
  \<^verbatim>\<open>{"balance": {"key": password, "address": address}}\<close> as message. It returns a value
  \<open>v\<close> exactly when the response is a dictionary whose field \<^verbatim>\<open>balance\<close> is a
  dictionary with \<open>v\<close> under \<^verbatim>\<open>amount\<close>: the value is returned as it is. It raises
  \<open>e\<close> exactly when \<open>e\<close> is the exception of the first step that fails, the query or
  one of the two subscripts; a missing key is a \<^verbatim>\<open>KeyError\<close> of that key.
\<close>

theorem get_balance_result:
  \<open>let msg = json_dumps (PDict [(''balance'', PDict [(''key'', password), (''address'', addr)])]);
       args = [address self, PStr msg];
       c = QueryContract args;
       (resp, ch) = query_contract E args (chain w);
       (r, self', w') = get_balance E self addr password w
   in calls w' = calls w @ [c] \<and> chain w' = ch
      \<and> msg = ''{"balance": {"key": '' @ json_dumps password @ '', "address": ''
                 @ json_dumps addr @ ''}}''
      \<and> call_message c = Some (PStr msg)
      \<and> (\<forall>v. r = Inr v \<longleftrightarrow>
            (\<exists>top inner. resp = Inr (PDict top) \<and> map_of top ''balance'' = Some (PDict inner)
               \<and> map_of inner ''amount'' = Some v))
      \<and> (\<forall>e. r = Inl e \<longleftrightarrow>
            resp = Inl e
            \<or> (\<exists>body. resp = Inr body \<and>
                 (getitem body ''balance'' = Inl e
                  \<or> (\<exists>inner. getitem body ''balance'' = Inr inner
                        \<and> getitem inner ''amount'' = Inl e))))
      \<and> (\<forall>top. resp = Inr (PDict top) \<and> map_of top ''balance'' = None
            \<longrightarrow> r = Inl (KeyError ''balance''))
      \<and> (\<forall>top inner. resp = Inr (PDict top) \<and> map_of top ''balance'' = Some (PDict inner)
            \<and> map_of inner ''amount'' = None \<longrightarrow> r = Inl (KeyError ''amount''))\<close>
proof -
  let ?msg = "json_dumps (PDict [(''balance'', PDict [(''key'', password), (''address'', addr)])])"
  let ?args = "[address self, PStr ?msg]"
  obtain resp ch where ex: "query_contract E ?args (chain w) = (resp, ch)"
    by (cases "query_contract E ?args (chain w)")
  obtain r s w' where gb: "get_balance E self addr password w = (r, s, w')"
    by (cases "get_balance E self addr password w")
  have r: "r = and_then (and_then resp (\<lambda>x. getitem x ''balance'')) (\<lambda>b. getitem b ''amount'')"
    and w': "w' = \<lparr>calls = calls w @ [QueryContract ?args], chain = ch\<rparr>"
    using gb ex
    by (auto simp add: get_balance_def query_contract_logged Let_def simp del: json_dumps.simps)
  have shape: \<open>?msg = ''{"balance": {"key": '' @ json_dumps password @ '', "address": ''
                 @ json_dumps addr @ ''}}''\<close>
    by (simp add: json_str_def json_escape_def)
  have ok: "r = Inr v \<longleftrightarrow>
            (\<exists>top inner. resp = Inr (PDict top) \<and> map_of top ''balance'' = Some (PDict inner)
               \<and> map_of inner ''amount'' = Some v)" for v
    unfolding r and_then_Inr_iff getitem_Inr_iff by blast
  have bad: "r = Inl e \<longleftrightarrow>
            resp = Inl e
            \<or> (\<exists>body. resp = Inr body \<and>
                 (getitem body ''balance'' = Inl e
                  \<or> (\<exists>inner. getitem body ''balance'' = Inr inner
                        \<and> getitem inner ''amount'' = Inl e)))" for e
    unfolding r and_then_Inl_iff and_then_Inr_iff by blast
  have k1: "\<forall>top. resp = Inr (PDict top) \<and> map_of top ''balance'' = None
            \<longrightarrow> r = Inl (KeyError ''balance'')"
    by (simp add: r and_then_def)
  have k2: "\<forall>top inner. resp = Inr (PDict top) \<and> map_of top ''balance'' = Some (PDict inner)
            \<and> map_of inner ''amount'' = None \<longrightarrow> r = Inl (KeyError ''amount'')"
    by (simp add: r and_then_def)
  have c1: "calls w' = calls w @ [QueryContract ?args]" and c2: "chain w' = ch"
    by (simp_all add: w' del: json_dumps.simps)
  have c3: "call_message (QueryContract ?args) = Some (PStr ?msg)"
    by (simp del: json_dumps.simps)
  show ?thesis
    unfolding Let_def ex gb prod.case
    by (intro conjI) (rule c1 c2 c3 shape k1 k2 | (rule allI, rule ok) | (rule allI, rule bad))+
qed

theorem get_balance_result_witness:
  \<open>fst (get_balance test_env test_token (PStr ''alice'') (PStr ''api_key_1'') test_world) =
     Inr (PStr ''100'')
   \<and> snd (snd (get_balance test_env test_token (PStr ''alice'') (PStr ''api_key_1'') test_world)) =
      \<lparr>calls = [QueryContract [PStr ''secret1token'',
                 PStr ''{"balance": {"key": "api_key_1", "address": "alice"}}'']],
       chain = 0\<rparr>
   \<and> fst (get_balance test_env test_token (PStr ''alice'') (PStr ''guess'') test_world) =
       Inl (KeyError ''balance'')
   \<and> fst (get_balance (test_env\<lparr>query_contract := \<lambda>args n. (Inr (PDict [(''balance'', PDict [])]), n)\<rparr>)
            test_token (PStr ''alice'') (PStr ''api_key_1'') test_world) =
       Inl (KeyError ''amount'')\<close>
proof -
  have a: \<open>fst (get_balance test_env test_token (PStr ''alice'') (PStr ''api_key_1'') test_world) =
     Inr (PStr ''100'')
   \<and> snd (snd (get_balance test_env test_token (PStr ''alice'') (PStr ''api_key_1'') test_world)) =
      \<lparr>calls = [QueryContract [PStr ''secret1token'',
                 PStr ''{"balance": {"key": "api_key_1", "address": "alice"}}'']],
       chain = 0\<rparr>\<close>
    using get_balance_result [where addr = "PStr ''alice''" and self = test_token
      and password = "PStr ''api_key_1''" and E = test_env and w = test_world]
    by (cases "get_balance test_env test_token (PStr ''alice'') (PStr ''api_key_1'') test_world")
      (simp add: test_defs)
  have b: "fst (get_balance test_env test_token (PStr ''alice'') (PStr ''guess'') test_world) =
       Inl (KeyError ''balance'')"
    using get_balance_result [where addr = "PStr ''alice''" and self = test_token
      and password = "PStr ''guess''" and E = test_env and w = test_world]
    by (cases "get_balance test_env test_token (PStr ''alice'') (PStr ''guess'') test_world")
      (simp add: test_defs)
  have c: "fst (get_balance (test_env\<lparr>query_contract := \<lambda>args n. (Inr (PDict [(''balance'', PDict [])]), n)\<rparr>)
            test_token (PStr ''alice'') (PStr ''api_key_1'') test_world) =
       Inl (KeyError ''amount'')"
    using get_balance_result [where addr = "PStr ''alice''" and self = test_token
      and password = "PStr ''api_key_1''" and w = test_world
      and E = "test_env\<lparr>query_contract := \<lambda>args n. (Inr (PDict [(''balance'', PDict [])]), n)\<rparr>"]
    by (cases "get_balance (test_env\<lparr>query_contract := \<lambda>args n. (Inr (PDict [(''balance'', PDict [])]), n)\<rparr>)
            test_token (PStr ''alice'') (PStr ''api_key_1'') test_world")
      (simp add: test_defs)
  from a b c show ?thesis
    by blast
qed

subsection \<open>The account and the message of \<^verbatim>\<open>set_view_key\<close>\<close>

text \<open>
  C10. The message of \<^verbatim>\<open>set_view_key\<close> is a function of the entropy alone. For two
  accounts and the same entropy, the two calls of \<^verbatim>\<open>execute_contract\<close> carry the same
  text, character for character, and differ only in the third argument, the sender.
\<close>

theorem set_view_key_message_ignores_account:
  \<open>let msg = json_dumps (PDict [(''create_viewing_key'', PDict [(''entropy'', entropy)])]);
       (ra, sa, wa) = set_view_key E self account_a entropy w;
       (rb, sb, wb) = set_view_key E self account_b entropy w
   in calls wa = calls w @ [ExecuteContract [address self, PStr msg, account_a, backend self]]
      \<and> calls wb = calls w @ [ExecuteContract [address self, PStr msg, account_b, backend self]]
      \<and> map call_message (calls wa) = map call_message (calls wb)
      \<and> call_sender (last (calls wa)) = Some account_a
      \<and> call_sender (last (calls wb)) = Some account_b\<close>
  by (simp add: set_view_key_def execute_contract_logged Let_def)

theorem set_view_key_message_ignores_account_witness:
  \<open>map call_message
      (calls (snd (snd (set_view_key test_env test_token (PStr ''alice'') (PStr ''seed'') test_world))))
   = [Some (PStr ''{"create_viewing_key": {"entropy": "seed"}}'')]
   \<and> map call_message
      (calls (snd (snd (set_view_key test_env test_token (PStr ''nobody'') (PStr ''seed'') test_world))))
   = [Some (PStr ''{"create_viewing_key": {"entropy": "seed"}}'')]
   \<and> map call_sender
      (calls (snd (snd (set_view_key test_env test_token (PStr ''alice'') (PStr ''seed'') test_world))))
   = [Some (PStr ''alice'')]
   \<and> map call_sender
      (calls (snd (snd (set_view_key test_env test_token (PStr ''nobody'') (PStr ''seed'') test_world))))
   = [Some (PStr ''nobody'')]\<close>
proof -
  obtain ra sa wa where a:
    "set_view_key test_env test_token (PStr ''alice'') (PStr ''seed'') test_world = (ra, sa, wa)"
    by (cases "set_view_key test_env test_token (PStr ''alice'') (PStr ''seed'') test_world")
  obtain rb sb wb where b:
    "set_view_key test_env test_token (PStr ''nobody'') (PStr ''seed'') test_world = (rb, sb, wb)"
    by (cases "set_view_key test_env test_token (PStr ''nobody'') (PStr ''seed'') test_world")
  from set_view_key_message_ignores_account [where entropy = "PStr ''seed''" and self = test_token
      and account_a = "PStr ''alice''" and account_b = "PStr ''nobody''" and E = test_env
      and w = test_world]
  have \<open>calls wa = [ExecuteContract [PStr ''secret1token'',
            PStr ''{"create_viewing_key": {"entropy": "seed"}}'', PStr ''alice'', PStr ''test'']]
      \<and> calls wb = [ExecuteContract [PStr ''secret1token'',
            PStr ''{"create_viewing_key": {"entropy": "seed"}}'', PStr ''nobody'', PStr ''test'']]\<close>
    unfolding a b Let_def prod.case
    by (simp add: test_token_def test_world_def json_str_def json_escape_def)
  then show ?thesis
    unfolding a b by simp
qed

subsection \<open>The envelope of every request\<close>



subsection \<open>The attributes of the instance\<close>

lemma invoke_keeps_self: "fst (snd (invoke E self m w)) = self"
  by (cases m)
    (simp_all add: set_minters_def deposit_def mint_def send_def set_view_key_def
      get_balance_def Let_def split: prod.splits)

lemma invoke_all_keeps_self: "fst (invoke_all E self ms w) = self"
proof (induction ms arbitrary: w)
  case Nil
  show ?case by simp
next
  case (Cons m ms)
  obtain r s w' where step: "invoke E self m w = (r, s, w')"
    by (cases "invoke E self m w")
  from invoke_keeps_self [of E self m w] step have "s = self"
    by simp
  with step Cons.IH [of w'] show ?case
    by simp
qed

lemma SNIP20_init_view_key:
  "SNIP20_init E a w = (Inr self, w') \<Longrightarrow> view_key self = PStr []"
  by (auto simp: SNIP20_init_def super_init_logged Let_def split: sum.splits prod.splits)

text \<open>
  C9. No method writes an attribute of the instance: after one call of any method, and
  after any sequence of calls, the instance is the one before, whether the calls
  returned or raised. In particular \<^verbatim>\<open>set_view_key\<close> returns the key and does not store
  it; on an instance that the constructor built, \<^verbatim>\<open>view_key\<close> is the empty string of the
  construction after every sequence of calls, and \<^verbatim>\<open>address\<close>, \<^verbatim>\<open>admin\<close> and \<^verbatim>\<open>backend\<close>
  are the ones the construction left.
\<close>

theorem attributes_never_written:
  "fst (snd (invoke E self m w)) = self
   \<and> fst (snd (set_view_key E self account entropy w)) = self
   \<and> fst (invoke_all E self ms w) = self
   \<and> (\<forall>built w1. SNIP20_init E a w0 = (Inr built, w1) \<longrightarrow>
         view_key built = PStr []
         \<and> view_key (fst (invoke_all E built ms w1)) = PStr []
         \<and> address (fst (invoke_all E built ms w1)) = address built
         \<and> admin (fst (invoke_all E built ms w1)) = admin built
         \<and> backend (fst (invoke_all E built ms w1)) = backend built)"
  using invoke_keeps_self [of E self "Set_view_key account entropy" w]
  by (simp add: invoke_keeps_self invoke_all_keeps_self SNIP20_init_view_key)

theorem attributes_never_written_witness:
  \<open>fst (SNIP20_init test_env (default_args (PStr ''sSCRT'')) test_world) = Inr test_token
   \<and> fst (set_view_key test_env test_token (PStr ''alice'') (PStr ''seed'') test_world) =
       Inr (PStr ''api_key_1'')
   \<and> view_key (fst (invoke_all test_env test_token
        [Set_view_key (PStr ''alice'') (PStr ''seed''), Mint (PStr ''bob'') (PInt 100),
         Get_balance (PStr ''alice'') (PStr ''guess'')]
        (snd (SNIP20_init test_env (default_args (PStr ''sSCRT'')) test_world)))) = PStr []\<close>
proof -
  let ?ms = "[Set_view_key (PStr ''alice'') (PStr ''seed''), Mint (PStr ''bob'') (PInt 100),
         Get_balance (PStr ''alice'') (PStr ''guess'')]"
  obtain w1 where built: "SNIP20_init test_env (default_args (PStr ''sSCRT'')) test_world
      = (Inr test_token, w1)"
    by (simp add: SNIP20_init_def super_init_logged test_env_def default_args_def test_token_def
        test_world_def Let_def)
  have key: "fst (set_view_key test_env test_token (PStr ''alice'') (PStr ''seed'') test_world) =
       Inr (PStr ''api_key_1'')"
    by (simp add: set_view_key_def execute_contract_logged test_env_def test_token_def
        test_world_def and_then_def json_loads_def Let_def)
  from attributes_never_written [where E = test_env and a = "default_args (PStr ''sSCRT'')"
      and ?w0.0 = test_world and ms = ?ms] built
  have "view_key (fst (invoke_all test_env test_token ?ms w1)) = PStr []"
    by blast
  with built key show ?thesis
    by simp
qed

subsection \<open>The constructor\<close>

text \<open>
  C7, as the spec states it, fails: the gas limit and the backend target are not in
  the JSON initialization payload. Two constructions that differ in both send the same
  payload, the one written out here, in which neither occurs.
\<close>

theorem init_payload_without_gas_and_backend:
  \<open>initMsg (default_args (PStr ''sSCRT''))
     = initMsg ((default_args (PStr ''sSCRT''))\<lparr>gas := PStr ''250000'', backend_arg := PStr ''pulsar''\<rparr>)
   \<and> gas (default_args (PStr ''sSCRT''))
     \<noteq> gas ((default_args (PStr ''sSCRT''))\<lparr>gas := PStr ''250000'', backend_arg := PStr ''pulsar''\<rparr>)
   \<and> backend_arg (default_args (PStr ''sSCRT''))
     \<noteq> backend_arg ((default_args (PStr ''sSCRT''))\<lparr>gas := PStr ''250000'', backend_arg := PStr ''pulsar''\<rparr>)
   \<and> initMsg (default_args (PStr ''sSCRT''))
     = ''{"name": "token", "symbol": "TKN", "decimals": 3, "prng_seed": "cGFzc3dvcmQ=", '' @
       ''"config": {"public_total_supply": false, "enable_deposit": false, '' @
       ''"enable_redeem": false, "enable_mint": false, "enable_burn": false}}''\<close>
  by (simp add: initMsg_def init_payload_def default_args_def json_str_def json_escape_def
      str_int_def str_nat.simps hexdigit_def)

text \<open>
  C7, amended. The JSON initialization payload holds the token metadata (\<^verbatim>\<open>name\<close>,
  \<^verbatim>\<open>symbol\<close>, \<^verbatim>\<open>decimals\<close>, and the seed under \<^verbatim>\<open>prng_seed\<close>) and, under \<^verbatim>\<open>config\<close>, the
  five feature flags, each as given: two constructions send the same payload exactly
  when they agree on these nine parameters. The other six parameters (\<^verbatim>\<open>label\<close>,
  \<^verbatim>\<open>contract\<close>, \<^verbatim>\<open>admin\<close>, \<^verbatim>\<open>uploader\<close>, \<^verbatim>\<open>gas\<close>, \<^verbatim>\<open>backend\<close>) do not change the
  payload: they are passed to the base constructor as arguments of their own, beside
  the payload, in the one call that the construction makes.
\<close>

theorem init_payload_parameters:
  \<open>getitem (init_payload a) ''name'' = Inr (name a)
   \<and> getitem (init_payload a) ''symbol'' = Inr (symbol a)
   \<and> getitem (init_payload a) ''decimals'' = Inr (decimals a)
   \<and> getitem (init_payload a) ''prng_seed'' = Inr (seed a)
   \<and> getitem (init_payload a) ''config'' =
       Inr (PDict [(''public_total_supply'', public_total_supply a),
                   (''enable_deposit'', enable_deposit a), (''enable_redeem'', enable_redeem a),
                   (''enable_mint'', enable_mint a), (''enable_burn'', enable_burn a)])
   \<and> initMsg a =
       ''{"name": '' @ json_dumps (name a) @ '', "symbol": '' @ json_dumps (symbol a)
       @ '', "decimals": '' @ json_dumps (decimals a) @ '', "prng_seed": '' @ json_dumps (seed a)
       @ '', "config": {"public_total_supply": '' @ json_dumps (public_total_supply a)
       @ '', "enable_deposit": '' @ json_dumps (enable_deposit a)
       @ '', "enable_redeem": '' @ json_dumps (enable_redeem a)
       @ '', "enable_mint": '' @ json_dumps (enable_mint a)
       @ '', "enable_burn": '' @ json_dumps (enable_burn a) @ ''}}''
   \<and> (initMsg a = initMsg b \<longleftrightarrow>
        name a = name b \<and> symbol a = symbol b \<and> decimals a = decimals b \<and> seed a = seed b
        \<and> public_total_supply a = public_total_supply b \<and> enable_deposit a = enable_deposit b
        \<and> enable_redeem a = enable_redeem b \<and> enable_mint a = enable_mint b
        \<and> enable_burn a = enable_burn b)
   \<and> initMsg (a\<lparr>label := l, contract := c, admin_arg := ad, uploader := u, gas := g,
                  backend_arg := be\<rparr>) = initMsg a
   \<and> calls (snd (SNIP20_init E a w)) =
       calls w @ [ContractInit [contract a, PStr (initMsg a), label a, admin_arg a, uploader a,
                                gas a, backend_arg a]]\<close>
proof -
  have same: "initMsg a = initMsg b \<longleftrightarrow>
        name a = name b \<and> symbol a = symbol b \<and> decimals a = decimals b \<and> seed a = seed b
        \<and> public_total_supply a = public_total_supply b \<and> enable_deposit a = enable_deposit b
        \<and> enable_redeem a = enable_redeem b \<and> enable_mint a = enable_mint b
        \<and> enable_burn a = enable_burn b"
    unfolding initMsg_def json_dumps_inj by (simp add: init_payload_def)
  have rest: \<open>getitem (init_payload a) ''name'' = Inr (name a)
   \<and> getitem (init_payload a) ''symbol'' = Inr (symbol a)
   \<and> getitem (init_payload a) ''decimals'' = Inr (decimals a)
   \<and> getitem (init_payload a) ''prng_seed'' = Inr (seed a)
   \<and> getitem (init_payload a) ''config'' =
       Inr (PDict [(''public_total_supply'', public_total_supply a),
                   (''enable_deposit'', enable_deposit a), (''enable_redeem'', enable_redeem a),
                   (''enable_mint'', enable_mint a), (''enable_burn'', enable_burn a)])
   \<and> initMsg a =
       ''{"name": '' @ json_dumps (name a) @ '', "symbol": '' @ json_dumps (symbol a)
       @ '', "decimals": '' @ json_dumps (decimals a) @ '', "prng_seed": '' @ json_dumps (seed a)
       @ '', "config": {"public_total_supply": '' @ json_dumps (public_total_supply a)
       @ '', "enable_deposit": '' @ json_dumps (enable_deposit a)
       @ '', "enable_redeem": '' @ json_dumps (enable_redeem a)
       @ '', "enable_mint": '' @ json_dumps (enable_mint a)
       @ '', "enable_burn": '' @ json_dumps (enable_burn a) @ ''}}''
   \<and> initMsg (a\<lparr>label := l, contract := c, admin_arg := ad, uploader := u, gas := g,
                  backend_arg := be\<rparr>) = initMsg a
   \<and> calls (snd (SNIP20_init E a w)) =
       calls w @ [ContractInit [contract a, PStr (initMsg a), label a, admin_arg a, uploader a,
                                gas a, backend_arg a]]\<close>
    by (simp add: initMsg_def init_payload_def SNIP20_init_def super_init_logged Let_def
        split: sum.splits prod.splits)
  from same rest show ?thesis
    by blast
qed

theorem init_payload_parameters_witness:
  \<open>calls (snd (SNIP20_init test_env
      ((default_args (PStr ''sSCRT''))\<lparr>name := PStr ''Secret SCRT'', decimals := PInt 6,
         enable_deposit := PBool True\<rparr>) test_world)) =
     [ContractInit [PStr ''snip20.wasm.gz'',
        PStr (''{"name": "Secret SCRT", "symbol": "TKN", "decimals": 6, "prng_seed": "cGFzc3dvcmQ=", '' @
              ''"config": {"public_total_supply": false, "enable_deposit": true, '' @
              ''"enable_redeem": false, "enable_mint": false, "enable_burn": false}}''),
        PStr ''sSCRT'', PStr ''a'', PStr ''a'', PStr ''10000000'', PStr ''test'']]
   \<and> initMsg ((default_args (PStr ''sSCRT''))\<lparr>decimals := PInt 6\<rparr>)
       \<noteq> initMsg (default_args (PStr ''sSCRT''))\<close>
proof -
  let ?a = "(default_args (PStr ''sSCRT''))\<lparr>name := PStr ''Secret SCRT'', decimals := PInt 6,
         enable_deposit := PBool True\<rparr>"
  let ?b = "(default_args (PStr ''sSCRT''))\<lparr>decimals := PInt 6\<rparr>"
  let ?d = "default_args (PStr ''sSCRT'')"
  from init_payload_parameters [where E = test_env and w = test_world and a = ?a and b = ?d
      and l = PNone and c = PNone and ad = PNone and u = PNone and g = PNone and be = PNone]
  have deployed: "calls (snd (SNIP20_init test_env ?a test_world)) =
       calls test_world @ [ContractInit [contract ?a, PStr (initMsg ?a), label ?a, admin_arg ?a,
                                uploader ?a, gas ?a, backend_arg ?a]]"
    and written: \<open>initMsg ?a =
       ''{"name": '' @ json_dumps (name ?a) @ '', "symbol": '' @ json_dumps (symbol ?a)
       @ '', "decimals": '' @ json_dumps (decimals ?a) @ '', "prng_seed": '' @ json_dumps (seed ?a)
       @ '', "config": {"public_total_supply": '' @ json_dumps (public_total_supply ?a)
       @ '', "enable_deposit": '' @ json_dumps (enable_deposit ?a)
       @ '', "enable_redeem": '' @ json_dumps (enable_redeem ?a)
       @ '', "enable_mint": '' @ json_dumps (enable_mint ?a)
       @ '', "enable_burn": '' @ json_dumps (enable_burn ?a) @ ''}}''\<close>
    by blast+
  from init_payload_parameters [where E = test_env and w = test_world and a = ?b and b = ?d
      and l = PNone and c = PNone and ad = PNone and u = PNone and g = PNone and be = PNone]
  have "initMsg ?b = initMsg ?d \<longleftrightarrow>
        name ?b = name ?d \<and> symbol ?b = symbol ?d \<and> decimals ?b = decimals ?d \<and> seed ?b = seed ?d
        \<and> public_total_supply ?b = public_total_supply ?d \<and> enable_deposit ?b = enable_deposit ?d
        \<and> enable_redeem ?b = enable_redeem ?d \<and> enable_mint ?b = enable_mint ?d
        \<and> enable_burn ?b = enable_burn ?d"
    by blast
  then have differs: "initMsg ?b \<noteq> initMsg ?d"
    by (simp add: default_args_def)
  show ?thesis
    unfolding deployed written
    using differs
    by (simp add: default_args_def test_world_def json_str_def json_escape_def str_int_def
        str_nat.simps hexdigit_def)
qed

end
